theory Spec2Isabelle
  imports Main
begin

section \<open>Strings\<close>

text \<open>
  A JavaScript string is modelled as a \<^typ>\<open>string\<close>: a list of 8-bit characters, read as
  the code units 0..255 (ISO 8859-1). The three string methods the two pages call
  (\<^verbatim>\<open>trim\<close>, \<^verbatim>\<open>toLowerCase\<close>, \<^verbatim>\<open>includes\<close>) are written out for that range.
\<close>

text \<open>White space and line terminators that \<^verbatim>\<open>String.prototype.trim\<close> strips:
  TAB, LF, VT, FF, CR, SPACE and NO-BREAK SPACE.\<close>

definition isWhiteSpace :: "char \<Rightarrow> bool" where
  "isWhiteSpace c = (of_char c \<in> {9, 10, 11, 12, 13, 32, 160 :: nat})"

definition trim :: "string \<Rightarrow> string" where
  "trim s = rev (dropWhile isWhiteSpace (rev (dropWhile isWhiteSpace s)))"

text \<open>Lower-casing of one code unit: \<open>A\<close>..\<open>Z\<close> and the upper-case letters of the
  Latin-1 supplement (0xC0..0xDE without the multiplication sign 0xD7) move up by 32,
  which sets bit 5; every other code unit is left alone.\<close>

definition isUpper :: "char \<Rightarrow> bool" where
  "isUpper c =
     (let n = (of_char c :: nat)
      in (65 \<le> n \<and> n \<le> 90) \<or> (192 \<le> n \<and> n \<le> 214) \<or> (216 \<le> n \<and> n \<le> 222))"

definition lowerChar :: "char \<Rightarrow> char" where
  "lowerChar c =
     (if isUpper c
      then (case c of Char b0 b1 b2 b3 b4 b5 b6 b7 \<Rightarrow> Char b0 b1 b2 b3 b4 True b6 b7)
      else c)"

definition toLowerCase :: "string \<Rightarrow> string" where
  "toLowerCase s = map lowerChar s"

fun startsWith :: "string \<Rightarrow> string \<Rightarrow> bool" where
  "startsWith s [] = True"
| "startsWith [] (k # ks) = False"
| "startsWith (c # cs) (k # ks) = (c = k \<and> startsWith cs ks)"

text \<open>\<^verbatim>\<open>s.includes(k)\<close>: \<open>k\<close> occurs in \<open>s\<close> as a contiguous substring.\<close>

fun includes_str :: "string \<Rightarrow> string \<Rightarrow> bool" where
  "includes_str [] k = (k = [])"
| "includes_str (c # cs) k = (startsWith (c # cs) k \<or> includes_str cs k)"

text \<open>\<^verbatim>\<open>Number.prototype.toString\<close> on a non-negative integer: its decimal digits.\<close>

definition digitChar :: "nat \<Rightarrow> char" where
  "digitChar d = ''0123456789'' ! d"

fun toString :: "nat \<Rightarrow> string" where
  "toString n =
     (if n < 10 then [digitChar n] else toString (n div 10) @ [digitChar (n mod 10)])"

declare toString.simps [simp del]

section \<open>Data model\<close>

datatype role = User | Assistant

datatype doc_status = Indexed | Pending

text \<open>The backend page's \<^verbatim>\<open>Source\<close> is \<^verbatim>\<open>{title, uri}\<close>, the mock page's is
  \<^verbatim>\<open>{title, reference}\<close>.\<close>

record remote_source =
  title :: string
  uri :: string

record source =
  title :: string
  reference :: string

text \<open>The value \<^verbatim>\<open>generateMockResponse\<close> returns: \<^verbatim>\<open>{content, sources}\<close>.\<close>

record mock_response =
  content :: string
  sources :: "source list"

text \<open>What the backend page reads from the body of \<^verbatim>\<open>POST /api/v1/chat\<close> when the body
  is not \<^verbatim>\<open>null\<close> or \<^verbatim>\<open>undefined\<close>: the values of \<^verbatim>\<open>response.response_text\<close> and
  \<^verbatim>\<open>response.sources\<close>. \<open>None\<close> is \<^verbatim>\<open>undefined\<close>: the body has no such property. That is
  so for a JSON object without the field, and for a body that is not JSON at all, which
  axios hands to the page as the string it received. A property that is present is taken
  at the type the page declares for the message field it is copied into.\<close>

record chat_data =
  response_text :: "string option"
  sources :: "remote_source list option"

text \<open>The body read from \<^verbatim>\<open>GET /api/v1/status\<close>: \<^verbatim>\<open>statusData.indexed_count\<close>.\<close>

record status_data =
  indexed_count :: int

text \<open>\<^verbatim>\<open>Message\<close>. The field \<^verbatim>\<open>sources\<close> is optional in the source
  (\<^verbatim>\<open>sources?: Source[]\<close>): \<open>None\<close> is the absent field. \<^verbatim>\<open>Date\<close> values are
  milliseconds since the epoch. The type parameters are the values a page stores as
  \<^verbatim>\<open>content\<close> and the page's \<^verbatim>\<open>Source\<close> type. On the mock page every content is a
  string. The backend page copies \<^verbatim>\<open>response.response_text\<close> into \<^verbatim>\<open>content\<close> as it reads
  it, so its content is a \<^typ>\<open>string option\<close>: \<open>None\<close> is \<^verbatim>\<open>undefined\<close>.\<close>

record ('c, 's) message =
  msg_id :: string
  role :: role
  content :: 'c
  sources :: "'s list option"
  timestamp :: nat

record document =
  doc_id :: string
  name :: string
  status :: doc_status

text \<open>\<^verbatim>\<open>ChatState\<close>: the mock page has four fields, the backend page adds
  \<^verbatim>\<open>indexedCount\<close>.\<close>

record ('c, 's) chat_state =
  messages :: "('c, 's) message list"
  isProcessing :: bool
  documents :: "document list"
  isIndexing :: bool

record ('c, 's) remote_chat_state = "('c, 's) chat_state" +
  indexedCount :: int

section \<open>The mock page (src/pages/Index.tsx)\<close>

subsection \<open>The slice\<close>

definition MOCK_DOCUMENTS :: "document list" where
  "MOCK_DOCUMENTS =
     [\<lparr>doc_id = ''1'', name = ''Q3 Financial Report'', status = Indexed\<rparr>,
      \<lparr>doc_id = ''2'', name = ''Customer Service Manual'', status = Indexed\<rparr>,
      \<lparr>doc_id = ''3'', name = ''Product Specifications'', status = Indexed\<rparr>,
      \<lparr>doc_id = ''4'', name = ''CEO Transcript 2024'', status = Indexed\<rparr>,
      \<lparr>doc_id = ''5'', name = ''Market Analysis Report'', status = Indexed\<rparr>]"

definition initialState :: "(string, source) chat_state" where
  "initialState =
     \<lparr>messages = [], isProcessing = False, documents = MOCK_DOCUMENTS, isIndexing = False\<rparr>"

text \<open>The actions of the mock page's \<^verbatim>\<open>chatSlice\<close> and its reducer. The three reducers
  that both pages share are written once, over any extension of the state record.\<close>

datatype action =
    AddMessage "(string, source) message"
  | SetIsProcessing bool
  | SetIsIndexing bool
  | SimulateIndexing

definition addMessage ::
  "('c, 's) message \<Rightarrow> ('c, 's, 'z) chat_state_scheme \<Rightarrow> ('c, 's, 'z) chat_state_scheme" where
  "addMessage m st = st\<lparr>messages := messages st @ [m]\<rparr>"

definition setIsProcessing ::
  "bool \<Rightarrow> ('c, 's, 'z) chat_state_scheme \<Rightarrow> ('c, 's, 'z) chat_state_scheme" where
  "setIsProcessing b st = st\<lparr>isProcessing := b\<rparr>"

definition setIsIndexing ::
  "bool \<Rightarrow> ('c, 's, 'z) chat_state_scheme \<Rightarrow> ('c, 's, 'z) chat_state_scheme" where
  "setIsIndexing b st = st\<lparr>isIndexing := b\<rparr>"

definition simulateIndexing :: "(string, source) chat_state \<Rightarrow> (string, source) chat_state" where
  "simulateIndexing st = st\<lparr>documents := map (\<lambda>doc. doc\<lparr>status := Indexed\<rparr>) (documents st)\<rparr>"

fun reducer :: "action \<Rightarrow> (string, source) chat_state \<Rightarrow> (string, source) chat_state" where
  "reducer (AddMessage m) st = addMessage m st"
| "reducer (SetIsProcessing b) st = setIsProcessing b st"
| "reducer (SetIsIndexing b) st = setIsIndexing b st"
| "reducer SimulateIndexing st = simulateIndexing st"

subsection \<open>The mock response generator\<close>

definition FINANCIAL_RESPONSE :: mock_response where
  "FINANCIAL_RESPONSE =
     \<lparr>mock_response.content =
        ''Based on our Q3 Financial Report, revenue increased by 23% year-over-year, reaching $4.2M in total revenue. The growth was primarily driven by our enterprise segment, which saw a 35% increase. Our customer acquisition cost decreased by 15%, while customer lifetime value increased by 20%.'',
      mock_response.sources =
        [\<lparr>title = ''Q3 Financial Report'', reference = ''Page 12, Section 3.2''\<rparr>,
         \<lparr>title = ''Market Analysis Report'', reference = ''Page 8''\<rparr>]\<rparr>"

definition SUPPORT_RESPONSE :: mock_response where
  "SUPPORT_RESPONSE =
     \<lparr>mock_response.content =
        ''Our customer support team is available 24/7 through multiple channels. You can reach us via email at support@company.com, phone at 1-800-SUPPORT, or through our live chat. According to our service manual, average response time is under 2 hours for email inquiries and immediate for live chat.'',
      mock_response.sources =
        [\<lparr>title = ''Customer Service Manual'', reference = ''Chapter 2, Contact Information''\<rparr>,
         \<lparr>title = ''Product Specifications'', reference = ''Support Section''\<rparr>]\<rparr>"

definition PRODUCT_RESPONSE :: mock_response where
  "PRODUCT_RESPONSE =
     \<lparr>mock_response.content =
        ''Our product suite includes three main offerings: Enterprise Platform (with advanced analytics and API access), Professional Plan (with team collaboration features), and Starter Plan (ideal for small teams). Each plan includes 99.9% uptime guarantee, real-time data synchronization, and dedicated support.'',
      mock_response.sources =
        [\<lparr>title = ''Product Specifications'', reference = ''Overview, Pages 1-5''\<rparr>,
         \<lparr>title = ''CEO Transcript 2024'', reference = ''Product Roadmap Discussion''\<rparr>]\<rparr>"

definition FALLBACK_RESPONSE :: mock_response where
  "FALLBACK_RESPONSE =
     \<lparr>mock_response.content =
        ''I can only provide information based on the indexed documents. Please ask questions related to our Q3 financial performance, customer support procedures, or product specifications. Feel free to rephrase your question to match the available document corpus.'',
      mock_response.sources = []\<rparr>"

definition generateMockResponse :: "string \<Rightarrow> mock_response" where
  "generateMockResponse query =
     (let lowerQuery = toLowerCase query
      in if includes_str lowerQuery ''revenue'' \<or> includes_str lowerQuery ''q3''
            \<or> includes_str lowerQuery ''financial''
         then FINANCIAL_RESPONSE
         else if includes_str lowerQuery ''contact'' \<or> includes_str lowerQuery ''support''
            \<or> includes_str lowerQuery ''customer''
         then SUPPORT_RESPONSE
         else if includes_str lowerQuery ''product'' \<or> includes_str lowerQuery ''feature''
            \<or> includes_str lowerQuery ''specification''
         then PRODUCT_RESPONSE
         else FALLBACK_RESPONSE)"

subsection \<open>Events of a handler\<close>

text \<open>
  A handler of a component does three kinds of things to the world outside it: it
  dispatches an action to the store, it sets the \<^verbatim>\<open>input\<close> state of the chat component
  (\<^verbatim>\<open>setInput\<close>), and it writes to the console (\<^verbatim>\<open>console.error\<close>). A handler is modelled
  by the list of these events in the order the source performs them; the store changes
  only through its reducer.
\<close>

text \<open>What a \<^verbatim>\<open>try\<close> block of the backend page can raise: the rejection of an awaited
  axios request, and the \<^verbatim>\<open>TypeError\<close> of reading a property of a \<^verbatim>\<open>null\<close> or
  \<^verbatim>\<open>undefined\<close> response body.\<close>

datatype exn = AxiosError | TypeError

datatype 'a event =
    Dispatch 'a
  | SetInput string
  | ConsoleError string exn

record 'st ui =
  store :: 'st
  input :: string
  console :: "(string \<times> exn) list"

fun perform :: "('a \<Rightarrow> 'st \<Rightarrow> 'st) \<Rightarrow> 'a event \<Rightarrow> 'st ui \<Rightarrow> 'st ui" where
  "perform red (Dispatch a) w = w\<lparr>store := red a (store w)\<rparr>"
| "perform red (SetInput s) w = w\<lparr>input := s\<rparr>"
| "perform red (ConsoleError msg e) w = w\<lparr>console := console w @ [(msg, e)]\<rparr>"

definition perform_all :: "('a \<Rightarrow> 'st \<Rightarrow> 'st) \<Rightarrow> 'a event list \<Rightarrow> 'st ui \<Rightarrow> 'st ui" where
  "perform_all red evs w = foldl (\<lambda>w' e. perform red e w') w evs"

text \<open>The store after a sequence of actions, from the slice's initial state.\<close>

definition dispatch_all :: "(string, source) chat_state \<Rightarrow> action list \<Rightarrow> (string, source) chat_state" where
  "dispatch_all st acts = foldl (\<lambda>st' a. reducer a st') st acts"

subsection \<open>The components' handlers\<close>

text \<open>\<^verbatim>\<open>ChatMessage\<close> lists a message's sources under
  \<^verbatim>\<open>!isUser && message.sources && message.sources.length > 0\<close>.\<close>

definition shownSources :: "('c, 's) message \<Rightarrow> 's list" where
  "shownSources m =
     (if role m \<noteq> User
      then (case sources m of None \<Rightarrow> [] | Some ss \<Rightarrow> if length ss > 0 then ss else [])
      else [])"

text \<open>\<^verbatim>\<open>DocumentStatusPanel\<close> of the mock page derives \<^verbatim>\<open>indexedCount\<close> from the list.\<close>

definition indexedCount_panel :: "document list \<Rightarrow> nat" where
  "indexedCount_panel docs = length (filter (\<lambda>d. status d = Indexed) docs)"

text \<open>\<^verbatim>\<open>handleIndexDocuments\<close>: the events before \<^verbatim>\<open>setTimeout\<close> with the delay it passes,
  and the events of the timer's callback.\<close>

definition handleIndexDocuments :: "action event list \<times> nat" where
  "handleIndexDocuments = ([Dispatch (SetIsIndexing True)], 2000)"

definition handleIndexDocuments_timeout :: "action event list" where
  "handleIndexDocuments_timeout = [Dispatch SimulateIndexing, Dispatch (SetIsIndexing False)]"

text \<open>
  \<^verbatim>\<open>handleSendMessage\<close> of the mock page. \<open>now\<close> is what \<^verbatim>\<open>Date.now()\<close> returns and \<open>date\<close>
  what \<^verbatim>\<open>new Date()\<close> holds at the call. The result is the events before
  \<^verbatim>\<open>setTimeout\<close>, and the timer it sets: the delay and the \<^verbatim>\<open>userMessage.content\<close> the
  callback closes over; \<open>None\<close> when the guard returns early.
\<close>

definition userMessage :: "nat \<Rightarrow> nat \<Rightarrow> string \<Rightarrow> (string, 's) message" where
  "userMessage now date inp =
     \<lparr>msg_id = toString now, role = User, content = trim inp, sources = None,
      timestamp = date\<rparr>"

definition handleSendMessage ::
  "nat \<Rightarrow> nat \<Rightarrow> (string, source) chat_state ui \<Rightarrow> action event list \<times> (nat \<times> string) option" where
  "handleSendMessage now date w =
     (if trim (input w) = [] \<or> isProcessing (store w) then ([], None)
      else ([Dispatch (AddMessage (userMessage now date (input w))),
             SetInput [],
             Dispatch (SetIsProcessing True)],
            Some (2000, content (userMessage now date (input w) :: (string, source) message))))"

definition aiMessage :: "nat \<Rightarrow> nat \<Rightarrow> string \<Rightarrow> (string, source) message" where
  "aiMessage now date userContent =
     \<lparr>msg_id = toString (now + 1), role = Assistant,
      content = mock_response.content (generateMockResponse userContent),
      sources = Some (mock_response.sources (generateMockResponse userContent)),
      timestamp = date\<rparr>"

definition handleSendMessage_timeout :: "string \<Rightarrow> nat \<Rightarrow> nat \<Rightarrow> action event list" where
  "handleSendMessage_timeout userContent now date =
     [Dispatch (AddMessage (aiMessage now date userContent)),
      Dispatch (SetIsProcessing False)]"

section \<open>The backend page (the Index.tsx that calls the API)\<close>

subsection \<open>The slice\<close>

definition initialState_remote :: "(string option, remote_source) remote_chat_state" where
  "initialState_remote =
     \<lparr>messages = [], isProcessing = False, documents = [], isIndexing = False,
      indexedCount = 0\<rparr>"

datatype remote_action =
    AddMessageR "(string option, remote_source) message"
  | SetMessagesR "(string option, remote_source) message list"
  | SetIsProcessingR bool
  | SetDocumentsR "document list"
  | SetIsIndexingR bool
  | SetIndexedCountR int

definition setMessages ::
  "('c, 's) message list \<Rightarrow> ('c, 's, 'z) chat_state_scheme \<Rightarrow> ('c, 's, 'z) chat_state_scheme" where
  "setMessages ms st = st\<lparr>messages := ms\<rparr>"

definition setDocuments ::
  "document list \<Rightarrow> ('c, 's, 'z) chat_state_scheme \<Rightarrow> ('c, 's, 'z) chat_state_scheme" where
  "setDocuments ds st = st\<lparr>documents := ds\<rparr>"

definition setIndexedCount ::
  "int \<Rightarrow> ('c, 's) remote_chat_state \<Rightarrow> ('c, 's) remote_chat_state" where
  "setIndexedCount n st = st\<lparr>indexedCount := n\<rparr>"

fun reducer_remote ::
  "remote_action \<Rightarrow> (string option, remote_source) remote_chat_state \<Rightarrow> (string option, remote_source) remote_chat_state" where
  "reducer_remote (AddMessageR m) st = addMessage m st"
| "reducer_remote (SetMessagesR ms) st = setMessages ms st"
| "reducer_remote (SetIsProcessingR b) st = setIsProcessing b st"
| "reducer_remote (SetDocumentsR ds) st = setDocuments ds st"
| "reducer_remote (SetIsIndexingR b) st = setIsIndexing b st"
| "reducer_remote (SetIndexedCountR n) st = setIndexedCount n st"

subsection \<open>Awaited requests, \<^verbatim>\<open>try\<close>, \<^verbatim>\<open>catch\<close> and \<^verbatim>\<open>finally\<close>\<close>

text \<open>
  How an awaited axios request settles: the promise is rejected (no connection, a
  time-out, a status outside 2xx), or it is resolved and the API function returns
  \<^verbatim>\<open>response.data\<close>. Where the page reads a property of that body, the body is an
  option: \<open>None\<close> is a \<^verbatim>\<open>null\<close> or \<^verbatim>\<open>undefined\<close> body, on which the read raises.
\<close>

datatype 'a settled = Rejected | Resolved 'a

text \<open>A block of statements: the events it performs, in order, and the exception it ends
  with, if it raises.\<close>

type_synonym 'a block = "'a event list \<times> exn option"

definition and_then :: "'a block \<Rightarrow> 'a block \<Rightarrow> 'a block" where
  "and_then b1 b2 =
     (case b1 of
        (es, None) \<Rightarrow> (es @ fst b2, snd b2)
      | (es, Some e) \<Rightarrow> (es, Some e))"

definition try_catch :: "'a block \<Rightarrow> (exn \<Rightarrow> 'a block) \<Rightarrow> 'a block" where
  "try_catch body handler =
     (case body of
        (es, None) \<Rightarrow> (es, None)
      | (es, Some e) \<Rightarrow> (case handler e of (hs, r) \<Rightarrow> (es @ hs, r)))"

text \<open>\<^verbatim>\<open>try { body } catch (error) { handler } finally { cleanup }\<close>: the clean-up runs
  after the body and, when the body raised, after the handler, also when the handler
  raises in its turn; an exception of the handler leaves the statement.\<close>

definition try_catch_finally ::
  "'a block \<Rightarrow> (exn \<Rightarrow> 'a block) \<Rightarrow> 'a event list \<Rightarrow> 'a block" where
  "try_catch_finally body handler cleanup =
     (case body of
        (es, None) \<Rightarrow> (es @ cleanup, None)
      | (es, Some e) \<Rightarrow> (case handler e of (hs, r) \<Rightarrow> (es @ hs @ cleanup, r)))"

subsection \<open>The components' handlers\<close>

text \<open>\<^verbatim>\<open>fetchStatusAndDocuments\<close>, given how \<^verbatim>\<open>getStatus()\<close> and \<^verbatim>\<open>getDocuments()\<close>
  settle (the second request is only made when the first did not raise).\<close>

definition fetchStatusAndDocuments ::
  "status_data option settled \<Rightarrow> document list settled \<Rightarrow> remote_action block" where
  "fetchStatusAndDocuments statusReply documentsReply =
     try_catch
       (case statusReply of
          Rejected \<Rightarrow> ([], Some AxiosError)
        | Resolved None \<Rightarrow> ([], Some TypeError)
        | Resolved (Some statusData) \<Rightarrow>
            and_then ([Dispatch (SetIndexedCountR (indexed_count statusData))], None)
              (case documentsReply of
                 Rejected \<Rightarrow> ([], Some AxiosError)
               | Resolved documentsData \<Rightarrow> ([Dispatch (SetDocumentsR documentsData)], None)))
       (\<lambda>error. ([ConsoleError ''Failed to fetch status or documents'' error], None))"

text \<open>\<^verbatim>\<open>handleFileUpload\<close>: \<open>file\<close> is \<^verbatim>\<open>event.target.files?.[0]\<close>, \<open>uploadReply\<close> how
  \<^verbatim>\<open>uploadDocument(file)\<close> settles.\<close>

definition handleFileUpload ::
  "'f option \<Rightarrow> 'u settled \<Rightarrow> status_data option settled \<Rightarrow> document list settled
     \<Rightarrow> remote_action block" where
  "handleFileUpload file uploadReply statusReply documentsReply =
     (case file of
        None \<Rightarrow> ([], None)
      | Some f \<Rightarrow>
          and_then ([Dispatch (SetIsIndexingR True)], None)
            (try_catch_finally
               (case uploadReply of
                  Rejected \<Rightarrow> ([], Some AxiosError)
                | Resolved ack \<Rightarrow> fetchStatusAndDocuments statusReply documentsReply)
               (\<lambda>error. ([ConsoleError ''Failed to upload document'' error], None))
               [Dispatch (SetIsIndexingR False)]))"

text \<open>The \<^verbatim>\<open>userMessage\<close> of the backend page: its content is the trimmed input.\<close>

definition userMessage_remote ::
  "nat \<Rightarrow> nat \<Rightarrow> string \<Rightarrow> (string option, 's) message" where
  "userMessage_remote now date inp =
     \<lparr>msg_id = toString now, role = User, content = Some (trim inp), sources = None,
      timestamp = date\<rparr>"

text \<open>
  \<^verbatim>\<open>handleSendMessage\<close> of the backend page, up to the \<^verbatim>\<open>await\<close>: the events, and the
  query \<^verbatim>\<open>postChatMessage\<close> is called with, which is \<^verbatim>\<open>userMessage.content\<close>, the trimmed
  input (\<open>None\<close> when the guard returns early).
\<close>

definition handleSendMessage_remote ::
  "nat \<Rightarrow> nat \<Rightarrow> (string option, remote_source) remote_chat_state ui
     \<Rightarrow> remote_action event list \<times> string option" where
  "handleSendMessage_remote now date w =
     (if trim (input w) = [] \<or> isProcessing (store w) then ([], None)
      else ([Dispatch (AddMessageR (userMessage_remote now date (input w))),
             SetInput [],
             Dispatch (SetIsProcessingR True)],
            Some (trim (input w))))"

definition aiMessage_remote ::
  "nat \<Rightarrow> nat \<Rightarrow> chat_data \<Rightarrow> (string option, remote_source) message" where
  "aiMessage_remote now date response =
     \<lparr>msg_id = toString (now + 1), role = Assistant, content = response_text response,
      sources = chat_data.sources response, timestamp = date\<rparr>"

definition errorMessage :: "nat \<Rightarrow> nat \<Rightarrow> (string option, remote_source) message" where
  "errorMessage now date =
     \<lparr>msg_id = toString (now + 1), role = Assistant,
      content =
        Some ''Sorry, I'm having trouble connecting to the server. Please try again later.'',
      sources = None, timestamp = date\<rparr>"

text \<open>The three blocks of the \<^verbatim>\<open>try\<close> statement, after the request has settled with
  \<open>reply\<close>. \<open>now\<close> and \<open>date\<close> are the clock as the block reads it.\<close>

definition sendTry :: "chat_data option settled \<Rightarrow> nat \<Rightarrow> nat \<Rightarrow> remote_action block" where
  "sendTry reply now date =
     (case reply of
        Rejected \<Rightarrow> ([], Some AxiosError)
      | Resolved None \<Rightarrow> ([], Some TypeError)
      | Resolved (Some response) \<Rightarrow>
          ([Dispatch (AddMessageR (aiMessage_remote now date response))], None))"

definition sendCatch :: "nat \<Rightarrow> nat \<Rightarrow> exn \<Rightarrow> remote_action block" where
  "sendCatch now date error =
     ([ConsoleError ''Failed to send message'' error,
       Dispatch (AddMessageR (errorMessage now date))], None)"

definition sendFinally :: "remote_action event list" where
  "sendFinally = [Dispatch (SetIsProcessingR False)]"

text \<open>\<^verbatim>\<open>handleSendMessage\<close> of the backend page from the \<^verbatim>\<open>await\<close> on. \<open>now'\<close> and
  \<open>date'\<close> are the clock as the \<^verbatim>\<open>catch\<close> block reads it.\<close>

definition handleSendMessage_settled ::
  "chat_data option settled \<Rightarrow> nat \<Rightarrow> nat \<Rightarrow> nat \<Rightarrow> nat \<Rightarrow> remote_action block" where
  "handleSendMessage_settled reply now date now' date' =
     try_catch_finally (sendTry reply now date) (sendCatch now' date') sendFinally"

section \<open>Properties as the specification words them\<close>

text \<open>
  The local resolver as the specification describes it: three keyword groups, tried in
  the order financial, support, product on the lower-cased query, and a fallback. It is
  compared with \<^const>\<open>generateMockResponse\<close> below.
\<close>

definition FINANCIAL_KEYWORDS :: "string list" where
  "FINANCIAL_KEYWORDS = [''financial'', ''revenue'', ''q3'']"

definition SUPPORT_KEYWORDS :: "string list" where
  "SUPPORT_KEYWORDS = [''support'', ''contact'', ''customer'']"

definition PRODUCT_KEYWORDS :: "string list" where
  "PRODUCT_KEYWORDS = [''product'', ''feature'', ''specification'']"

definition mentions :: "string list \<Rightarrow> string \<Rightarrow> bool" where
  "mentions keywords query = list_ex (includes_str (toLowerCase query)) keywords"

fun resolve_spec :: "(string list \<times> mock_response) list \<Rightarrow> string \<Rightarrow> mock_response" where
  "resolve_spec [] query = FALLBACK_RESPONSE"
| "resolve_spec ((keywords, response) # groups) query =
     (if mentions keywords query then response else resolve_spec groups query)"

definition PRIORITY_spec :: "(string list \<times> mock_response) list" where
  "PRIORITY_spec =
     [(FINANCIAL_KEYWORDS, FINANCIAL_RESPONSE),
      (SUPPORT_KEYWORDS, SUPPORT_RESPONSE),
      (PRODUCT_KEYWORDS, PRODUCT_RESPONSE)]"

text \<open>A document's status has reverted between two document lists when a document that
  is indexed in the first is pending, under the same id, in the second.\<close>

definition reverted :: "document list \<Rightarrow> document list \<Rightarrow> bool" where
  "reverted before after =
     list_ex (\<lambda>d. status d = Indexed \<and>
                list_ex (\<lambda>d'. doc_id d' = doc_id d \<and> status d' = Pending) after) before"

text \<open>A request of the backend page has failed when its \<^verbatim>\<open>try\<close> block raises: the
  request is rejected, or the body whose property is read is \<^verbatim>\<open>null\<close> or
  \<^verbatim>\<open>undefined\<close>.\<close>

definition failed :: "'a option settled \<Rightarrow> bool" where
  "failed reply = (case reply of Rejected \<Rightarrow> True | Resolved None \<Rightarrow> True | Resolved (Some d) \<Rightarrow> False)"

definition rejected :: "'a settled \<Rightarrow> bool" where
  "rejected reply = (case reply of Rejected \<Rightarrow> True | Resolved d \<Rightarrow> False)"

section \<open>Lemmas\<close>

lemma perform_all_Nil: "perform_all red [] w = w"
  by (simp add: perform_all_def)

lemma perform_all_Cons: "perform_all red (e # es) w = perform_all red es (perform red e w)"
  by (simp add: perform_all_def)

lemma perform_all_append:
  "perform_all red (xs @ ys) w = perform_all red ys (perform_all red xs w)"
  by (simp add: perform_all_def)

lemma responses_distinct:
  "FINANCIAL_RESPONSE \<noteq> SUPPORT_RESPONSE" "FINANCIAL_RESPONSE \<noteq> PRODUCT_RESPONSE"
  "FINANCIAL_RESPONSE \<noteq> FALLBACK_RESPONSE" "SUPPORT_RESPONSE \<noteq> PRODUCT_RESPONSE"
  "SUPPORT_RESPONSE \<noteq> FALLBACK_RESPONSE" "PRODUCT_RESPONSE \<noteq> FALLBACK_RESPONSE"
  by (simp_all add: FINANCIAL_RESPONSE_def SUPPORT_RESPONSE_def PRODUCT_RESPONSE_def
      FALLBACK_RESPONSE_def)

lemma generateMockResponse_refines:
  "generateMockResponse query = resolve_spec PRIORITY_spec query"
  by (simp add: generateMockResponse_def PRIORITY_spec_def mentions_def FINANCIAL_KEYWORDS_def
      SUPPORT_KEYWORDS_def PRODUCT_KEYWORDS_def Let_def)

section \<open>The local resolver\<close>

text \<open>
  Claim C3. The local resolver \<^const>\<open>generateMockResponse\<close> is a function of the query
  text alone, so two calls with the same query return the same content and sources (it
  even depends on the query only through its lower-casing). It agrees with the
  specification's resolver \<^const>\<open>resolve_spec\<close> on the priority list financial, support,
  product: a query that mentions a financial keyword gets the financial response
  whatever else it mentions, a support keyword wins over a product keyword, and the
  fallback is returned only when no group matches. In particular a query whose
  lower-casing contains both "revenue" and "support" gets the financial response. The
  four responses are pairwise different, so the branch taken can be read off the result.
\<close>

theorem C3_local_resolver_deterministic_priority:
  "(q1 = q2 \<longrightarrow> generateMockResponse q1 = generateMockResponse q2)
   \<and> (toLowerCase q1 = toLowerCase q2 \<longrightarrow> generateMockResponse q1 = generateMockResponse q2)
   \<and> generateMockResponse query = resolve_spec PRIORITY_spec query
   \<and> (mentions FINANCIAL_KEYWORDS query \<longrightarrow> generateMockResponse query = FINANCIAL_RESPONSE)
   \<and> (\<not> mentions FINANCIAL_KEYWORDS query \<and> mentions SUPPORT_KEYWORDS query
        \<longrightarrow> generateMockResponse query = SUPPORT_RESPONSE)
   \<and> (\<not> mentions FINANCIAL_KEYWORDS query \<and> \<not> mentions SUPPORT_KEYWORDS query
        \<and> mentions PRODUCT_KEYWORDS query
        \<longrightarrow> generateMockResponse query = PRODUCT_RESPONSE)
   \<and> (\<not> mentions FINANCIAL_KEYWORDS query \<and> \<not> mentions SUPPORT_KEYWORDS query
        \<and> \<not> mentions PRODUCT_KEYWORDS query
        \<longrightarrow> generateMockResponse query = FALLBACK_RESPONSE)
   \<and> (includes_str (toLowerCase query) ''revenue'' \<and> includes_str (toLowerCase query) ''support''
        \<longrightarrow> generateMockResponse query = FINANCIAL_RESPONSE)
   \<and> distinct [FINANCIAL_RESPONSE, SUPPORT_RESPONSE, PRODUCT_RESPONSE, FALLBACK_RESPONSE]"
proof -
  have det: "q1 = q2 \<longrightarrow> generateMockResponse q1 = generateMockResponse q2"
    by simp
  have low: "toLowerCase q1 = toLowerCase q2 \<longrightarrow> generateMockResponse q1 = generateMockResponse q2"
    by (simp add: generateMockResponse_def)
  have fin: "mentions FINANCIAL_KEYWORDS query \<longrightarrow> generateMockResponse query = FINANCIAL_RESPONSE"
    by (simp add: generateMockResponse_refines PRIORITY_spec_def)
  have sup: "\<not> mentions FINANCIAL_KEYWORDS query \<and> mentions SUPPORT_KEYWORDS query
        \<longrightarrow> generateMockResponse query = SUPPORT_RESPONSE"
    by (simp add: generateMockResponse_refines PRIORITY_spec_def)
  have prod: "\<not> mentions FINANCIAL_KEYWORDS query \<and> \<not> mentions SUPPORT_KEYWORDS query
        \<and> mentions PRODUCT_KEYWORDS query
        \<longrightarrow> generateMockResponse query = PRODUCT_RESPONSE"
    by (simp add: generateMockResponse_refines PRIORITY_spec_def)
  have fall: "\<not> mentions FINANCIAL_KEYWORDS query \<and> \<not> mentions SUPPORT_KEYWORDS query
        \<and> \<not> mentions PRODUCT_KEYWORDS query
        \<longrightarrow> generateMockResponse query = FALLBACK_RESPONSE"
    by (simp add: generateMockResponse_refines PRIORITY_spec_def)
  have both: "includes_str (toLowerCase query) ''revenue'' \<and> includes_str (toLowerCase query) ''support''
        \<longrightarrow> generateMockResponse query = FINANCIAL_RESPONSE"
    by (simp add: generateMockResponse_def)
  have dist: "distinct [FINANCIAL_RESPONSE, SUPPORT_RESPONSE, PRODUCT_RESPONSE, FALLBACK_RESPONSE]"
    using responses_distinct by simp
  from det low fin sup prod fall both dist generateMockResponse_refines show ?thesis
    by blast
qed

text \<open>The hypotheses of C3 at the query "Revenue from SUPPORT contracts", which
  mentions a financial and a support keyword.\<close>

theorem C3_witness:
  "includes_str (toLowerCase ''Revenue from SUPPORT contracts'') ''revenue''
   \<and> includes_str (toLowerCase ''Revenue from SUPPORT contracts'') ''support''
   \<and> mentions FINANCIAL_KEYWORDS ''Revenue from SUPPORT contracts''
   \<and> mentions SUPPORT_KEYWORDS ''Revenue from SUPPORT contracts''
   \<and> generateMockResponse ''Revenue from SUPPORT contracts'' = FINANCIAL_RESPONSE
   \<and> generateMockResponse ''Revenue from SUPPORT contracts'' \<noteq> SUPPORT_RESPONSE"
proof -
  have a: "includes_str (toLowerCase ''Revenue from SUPPORT contracts'') ''revenue''"
    by (simp add: toLowerCase_def lowerChar_def isUpper_def)
  have b: "includes_str (toLowerCase ''Revenue from SUPPORT contracts'') ''support''"
    by (simp add: toLowerCase_def lowerChar_def isUpper_def)
  have c: "mentions FINANCIAL_KEYWORDS ''Revenue from SUPPORT contracts''"
    using a by (simp add: mentions_def FINANCIAL_KEYWORDS_def)
  have d: "mentions SUPPORT_KEYWORDS ''Revenue from SUPPORT contracts''"
    using b by (simp add: mentions_def SUPPORT_KEYWORDS_def)
  from C3_local_resolver_deterministic_priority
    [of "''Revenue from SUPPORT contracts''" "''Revenue from SUPPORT contracts''"
        "''Revenue from SUPPORT contracts''"] a b
  have e: "generateMockResponse ''Revenue from SUPPORT contracts'' = FINANCIAL_RESPONSE"
    and f: "distinct [FINANCIAL_RESPONSE, SUPPORT_RESPONSE, PRODUCT_RESPONSE, FALLBACK_RESPONSE]"
    by blast+
  from f have "FINANCIAL_RESPONSE \<noteq> SUPPORT_RESPONSE" by simp
  with a b c d e show ?thesis by simp
qed

text \<open>
  Claim C9. With the local resolver, the input "What was the Q3 revenue?" yields content
  that contains "23%" and "$4.2M" and a list of two sources, the first of them titled
  "Q3 Financial Report"; the assistant message the mock page builds for that input
  carries the same content and shows these two sources.
\<close>

theorem C9_q3_revenue_example:
  "includes_str (mock_response.content (generateMockResponse ''What was the Q3 revenue?'')) ''23%''
   \<and> includes_str (mock_response.content (generateMockResponse ''What was the Q3 revenue?'')) ''$4.2M''
   \<and> length (mock_response.sources (generateMockResponse ''What was the Q3 revenue?'')) = 2
   \<and> title (mock_response.sources (generateMockResponse ''What was the Q3 revenue?'') ! 0)
       = ''Q3 Financial Report''
   \<and> includes_str (content (aiMessage now date (trim ''What was the Q3 revenue?''))) ''23%''
   \<and> includes_str (content (aiMessage now date (trim ''What was the Q3 revenue?''))) ''$4.2M''
   \<and> map title (shownSources (aiMessage now date (trim ''What was the Q3 revenue?'')))
       = [''Q3 Financial Report'', ''Market Analysis Report'']"
proof -
  have t: "trim ''What was the Q3 revenue?'' = ''What was the Q3 revenue?''"
    by (simp add: trim_def isWhiteSpace_def)
  have g: "generateMockResponse ''What was the Q3 revenue?'' = FINANCIAL_RESPONSE"
    by (simp add: generateMockResponse_def toLowerCase_def lowerChar_def isUpper_def)
  have c1: "includes_str (mock_response.content FINANCIAL_RESPONSE) ''23%''"
    by (simp add: FINANCIAL_RESPONSE_def)
  have c2: "includes_str (mock_response.content FINANCIAL_RESPONSE) ''$4.2M''"
    by (simp add: FINANCIAL_RESPONSE_def)
  have s: "mock_response.sources FINANCIAL_RESPONSE =
      [\<lparr>title = ''Q3 Financial Report'', reference = ''Page 12, Section 3.2''\<rparr>,
       \<lparr>title = ''Market Analysis Report'', reference = ''Page 8''\<rparr>]"
    by (simp add: FINANCIAL_RESPONSE_def)
  show ?thesis
    using c1 c2 by (simp add: t g s aiMessage_def shownSources_def)
qed

section \<open>Submitting a message\<close>

lemma try_catch_finally_ends_with_cleanup:
  "\<exists>pre. fst (try_catch_finally body handler cleanup) = pre @ cleanup"
proof (cases body)
  case (Pair es r)
  show ?thesis
  proof (cases r)
    case None
    with Pair show ?thesis by (simp add: try_catch_finally_def)
  next
    case (Some e)
    obtain hs r' where h: "handler e = (hs, r')" by (cases "handler e")
    with Pair Some have "fst (try_catch_finally body handler cleanup) = (es @ hs) @ cleanup"
      by (simp add: try_catch_finally_def)
    then show ?thesis by blast
  qed
qed

lemma isProcessing_after_cleanup:
  "isProcessing (store (perform_all reducer_remote (pre @ [Dispatch (SetIsProcessingR False)]) w)) = False"
  by (simp add: perform_all_append perform_all_Cons perform_all_Nil setIsProcessing_def)

lemma isIndexing_after_cleanup:
  "isIndexing (store (perform_all reducer_remote (pre @ [Dispatch (SetIsIndexingR False)]) w)) = False"
  by (simp add: perform_all_append perform_all_Cons perform_all_Nil setIsIndexing_def)

lemma handleSendMessage_settled_cases:
  "handleSendMessage_settled reply now date now' date' =
     (case reply of
        Resolved (Some response) \<Rightarrow>
          ([Dispatch (AddMessageR (aiMessage_remote now date response)),
            Dispatch (SetIsProcessingR False)], None)
      | Resolved None \<Rightarrow>
          ([ConsoleError ''Failed to send message'' TypeError,
            Dispatch (AddMessageR (errorMessage now' date')),
            Dispatch (SetIsProcessingR False)], None)
      | Rejected \<Rightarrow>
          ([ConsoleError ''Failed to send message'' AxiosError,
            Dispatch (AddMessageR (errorMessage now' date')),
            Dispatch (SetIsProcessingR False)], None))"
  by (simp add: handleSendMessage_settled_def try_catch_finally_def sendTry_def sendCatch_def
      sendFinally_def split: settled.splits option.splits)

lemma settled_messages:
  "messages (store (perform_all reducer_remote
      (fst (handleSendMessage_settled reply now date now' date')) w)) =
   messages (store w) @
     [case reply of Resolved (Some response) \<Rightarrow> aiMessage_remote now date response
      | _ \<Rightarrow> errorMessage now' date']"
  by (simp add: handleSendMessage_settled_cases perform_all_Cons perform_all_Nil addMessage_def
      setIsProcessing_def split: settled.splits option.splits)

lemma settled_role:
  "role (case reply of Resolved (Some response) \<Rightarrow> aiMessage_remote now date response
      | _ \<Rightarrow> errorMessage now' date') = Assistant"
  by (simp add: aiMessage_remote_def errorMessage_def split: settled.splits option.splits)

lemma timeout_messages:
  "messages (store (perform_all reducer (handleSendMessage_timeout c now date) w)) =
   messages (store w) @ [aiMessage now date c]"
  by (simp add: handleSendMessage_timeout_def perform_all_Cons perform_all_Nil addMessage_def
      setIsProcessing_def)

lemma mock_submit_messages:
  "trim (input w) \<noteq> [] \<Longrightarrow> \<not> isProcessing (store w) \<Longrightarrow>
   messages (store (perform_all reducer (fst (handleSendMessage now date w)) w)) =
   messages (store w) @ [userMessage now date (input w)]"
  by (simp add: handleSendMessage_def perform_all_Cons perform_all_Nil addMessage_def
      setIsProcessing_def)

lemma remote_submit_messages:
  "trim (input w) \<noteq> [] \<Longrightarrow> \<not> isProcessing (store w) \<Longrightarrow>
   messages (store (perform_all reducer_remote (fst (handleSendMessage_remote now date w)) w)) =
   messages (store w) @ [userMessage_remote now date (input w)]"
  by (simp add: handleSendMessage_remote_def perform_all_Cons perform_all_Nil addMessage_def
      setIsProcessing_def)

text \<open>
  Claim C1. When the input is non-empty after trimming and no submission is in progress,
  \<^verbatim>\<open>handleSendMessage\<close> appends exactly one message to the store before it suspends, a
  user message, and schedules one continuation (the timer of the mock page, the awaited
  request of the backend page). That continuation appends exactly one message, an
  assistant message, to whatever the message list is when it runs: the mock page's timer
  callback appends the generated response; the backend page appends the reply's message
  when the request succeeds and the error message when the request is rejected or its
  body cannot be read, and no exception leaves the handler. So a submission adds one
  user and one assistant message, never none and never two.
\<close>

theorem C1_submit_appends_one_user_then_one_assistant:
  fixes w w2 :: "(string, source) chat_state ui" and v v2 :: "(string option, remote_source) remote_chat_state ui"
  shows
  "(trim (input w) \<noteq> [] \<and> \<not> isProcessing (store w) \<longrightarrow>
      snd (handleSendMessage now date w) = Some (2000, trim (input w))
    \<and> messages (store (perform_all reducer (fst (handleSendMessage now date w)) w))
        = messages (store w) @ [userMessage now date (input w)]
    \<and> role (userMessage now date (input w) :: (string, source) message) = User
    \<and> messages (store (perform_all reducer
          (handleSendMessage_timeout (trim (input w)) now2 date2) w2))
        = messages (store w2) @ [aiMessage now2 date2 (trim (input w))]
    \<and> role (aiMessage now2 date2 (trim (input w))) = Assistant)
   \<and>
   (trim (input v) \<noteq> [] \<and> \<not> isProcessing (store v) \<longrightarrow>
      snd (handleSendMessage_remote now date v) = Some (trim (input v))
    \<and> messages (store (perform_all reducer_remote (fst (handleSendMessage_remote now date v)) v))
        = messages (store v) @ [userMessage_remote now date (input v)]
    \<and> role (userMessage_remote now date (input v)
        :: (string option, remote_source) message) = User
    \<and> snd (handleSendMessage_settled reply now2 date2 now3 date3) = None
    \<and> messages (store (perform_all reducer_remote
          (fst (handleSendMessage_settled reply now2 date2 now3 date3)) v2))
        = messages (store v2) @
            [case reply of Resolved (Some response) \<Rightarrow> aiMessage_remote now2 date2 response
             | _ \<Rightarrow> errorMessage now3 date3]
    \<and> role (case reply of Resolved (Some response) \<Rightarrow> aiMessage_remote now2 date2 response
             | _ \<Rightarrow> errorMessage now3 date3) = Assistant)"
proof -
  have m1: "trim (input w) \<noteq> [] \<and> \<not> isProcessing (store w) \<longrightarrow>
      snd (handleSendMessage now date w) = Some (2000, trim (input w))"
    by (simp add: handleSendMessage_def userMessage_def)
  have m2: "role (userMessage now date (input w) :: (string, source) message) = User"
    by (simp add: userMessage_def)
  have m3: "role (aiMessage now2 date2 (trim (input w))) = Assistant"
    by (simp add: aiMessage_def)
  have r1: "trim (input v) \<noteq> [] \<and> \<not> isProcessing (store v) \<longrightarrow>
      snd (handleSendMessage_remote now date v) = Some (trim (input v))"
    by (simp add: handleSendMessage_remote_def)
  have r2: "role (userMessage_remote now date (input v)
      :: (string option, remote_source) message) = User"
    by (simp add: userMessage_remote_def)
  have r3: "snd (handleSendMessage_settled reply now2 date2 now3 date3) = None"
    by (simp add: handleSendMessage_settled_cases split: settled.splits option.splits)
  show ?thesis
    using m1 m2 m3 r1 r2 r3
    by (simp add: mock_submit_messages remote_submit_messages timeout_messages
        settled_messages settled_role)
qed

text \<open>The hypotheses of C1 at the input " hello " on the initial store of each page; the
  backend's request is rejected.\<close>

theorem C1_witness:
  "trim (input \<lparr>store = initialState, input = '' hello '', console = []\<rparr>) \<noteq> []
   \<and> \<not> isProcessing (store \<lparr>store = initialState, input = '' hello '', console = []\<rparr>)
   \<and> messages (store (perform_all reducer
         (fst (handleSendMessage 7 7 \<lparr>store = initialState, input = '' hello '', console = []\<rparr>))
         \<lparr>store = initialState, input = '' hello '', console = []\<rparr>))
       = [userMessage 7 7 '' hello '']
   \<and> messages (store (perform_all reducer (handleSendMessage_timeout ''hello'' 9 9)
         \<lparr>store = initialState, input = [], console = []\<rparr>))
       = [aiMessage 9 9 ''hello'']
   \<and> trim (input \<lparr>store = initialState_remote, input = '' hello '', console = []\<rparr>) \<noteq> []
   \<and> \<not> isProcessing (store \<lparr>store = initialState_remote, input = '' hello '', console = []\<rparr>)
   \<and> messages (store (perform_all reducer_remote
         (fst (handleSendMessage_remote 7 7
            \<lparr>store = initialState_remote, input = '' hello '', console = []\<rparr>))
         \<lparr>store = initialState_remote, input = '' hello '', console = []\<rparr>))
       = [userMessage_remote 7 7 '' hello '']
   \<and> messages (store (perform_all reducer_remote
         (fst (handleSendMessage_settled Rejected 9 9 9 9))
         \<lparr>store = initialState_remote, input = [], console = []\<rparr>))
       = [errorMessage 9 9]"
proof -
  have t: "trim '' hello '' = ''hello''"
    by (simp add: trim_def isWhiteSpace_def)
  have a: "trim (input \<lparr>store = initialState, input = '' hello '', console = []\<rparr>) \<noteq> []
     \<and> \<not> isProcessing (store \<lparr>store = initialState, input = '' hello '', console = []\<rparr>)"
    by (simp add: t initialState_def)
  have b: "trim (input \<lparr>store = initialState_remote, input = '' hello '', console = []\<rparr>) \<noteq> []
     \<and> \<not> isProcessing (store \<lparr>store = initialState_remote, input = '' hello '', console = []\<rparr>)"
    by (simp add: t initialState_remote_def)
  have m: "messages initialState = []" "messages initialState_remote = []"
    by (simp_all add: initialState_def initialState_remote_def)
  show ?thesis
    using a b C1_submit_appends_one_user_then_one_assistant
      [where w = "\<lparr>store = initialState, input = '' hello '', console = []\<rparr>"
         and v = "\<lparr>store = initialState_remote, input = '' hello '', console = []\<rparr>"
         and ?w2.0 = "\<lparr>store = initialState, input = [], console = []\<rparr>"
         and ?v2.0 = "\<lparr>store = initialState_remote, input = [], console = []\<rparr>"
         and now = 7 and date = 7 and ?now2.0 = 9 and ?date2.0 = 9 and ?now3.0 = 9
         and ?date3.0 = 9 and reply = Rejected]
    by (simp add: t m)
qed

lemma handleFileUpload_ends_with_cleanup:
  "\<exists>pre. fst (handleFileUpload (Some f) uploadReply statusReply documentsReply)
      = pre @ [Dispatch (SetIsIndexingR False)]"
proof -
  obtain pre where
    "fst (try_catch_finally
       (case uploadReply of
          Rejected \<Rightarrow> ([], Some AxiosError)
        | Resolved ack \<Rightarrow> fetchStatusAndDocuments statusReply documentsReply)
       (\<lambda>error. ([ConsoleError ''Failed to upload document'' error], None))
       [Dispatch (SetIsIndexingR False)]) = pre @ [Dispatch (SetIsIndexingR False)]"
    using try_catch_finally_ends_with_cleanup by blast
  then have "fst (handleFileUpload (Some f) uploadReply statusReply documentsReply)
      = (Dispatch (SetIsIndexingR True) # pre) @ [Dispatch (SetIsIndexingR False)]"
    by (simp add: handleFileUpload_def and_then_def)
  then show ?thesis by blast
qed

lemma fetchStatusAndDocuments_swallows:
  "snd (fetchStatusAndDocuments statusReply documentsReply) = None"
  by (simp add: fetchStatusAndDocuments_def try_catch_def and_then_def
      split: settled.splits option.splits)

lemma handleFileUpload_swallows:
  "snd (handleFileUpload file uploadReply statusReply documentsReply) = None"
proof (cases "file")
  case None
  then show ?thesis by (simp add: handleFileUpload_def)
next
  case (Some f)
  obtain es where "fetchStatusAndDocuments statusReply documentsReply = (es, None)"
    using fetchStatusAndDocuments_swallows [of statusReply documentsReply]
    by (cases "fetchStatusAndDocuments statusReply documentsReply") simp
  with Some show ?thesis
    by (simp add: handleFileUpload_def and_then_def try_catch_finally_def split: settled.splits)
qed

text \<open>
  Claim C2. On the backend page the dispatch of \<^verbatim>\<open>setIsProcessing(false)\<close> stands in the
  \<^verbatim>\<open>finally\<close> block: it is the last event of \<^verbatim>\<open>handleSendMessage\<close> however the request
  settles (resolved, rejected, or resolved with a body whose read raises while the
  assistant message is built), no exception leaves the handler, and \<^verbatim>\<open>isProcessing\<close> is
  false afterwards. The same holds with any other \<^verbatim>\<open>try\<close> block and \<^verbatim>\<open>catch\<close> block put
  in their place, in particular blocks that raise while they append the assistant
  message or the error message. On the mock page there is no \<^verbatim>\<open>try\<close> statement: the
  timer's callback is two dispatches with nothing that raises between them, the second
  is \<^verbatim>\<open>setIsProcessing(false)\<close>, and \<^verbatim>\<open>isProcessing\<close> is false after it. The same is proved
  of \<^verbatim>\<open>isIndexing\<close>: \<^verbatim>\<open>handleFileUpload\<close> clears it in its \<^verbatim>\<open>finally\<close> block on every
  outcome of the upload and the refresh, and the mock page's indexing timer clears it
  last.
\<close>

theorem C2_busy_flags_cleared_on_every_outcome:
  fixes w :: "(string, source) chat_state ui" and v :: "(string option, remote_source) remote_chat_state ui"
    and body :: "remote_action block" and handler :: "exn \<Rightarrow> remote_action block"
  shows
  "(\<exists>pre. fst (handleSendMessage_settled reply now date now' date')
        = pre @ [Dispatch (SetIsProcessingR False)])
   \<and> snd (handleSendMessage_settled reply now date now' date') = None
   \<and> \<not> isProcessing (store (perform_all reducer_remote
          (fst (handleSendMessage_settled reply now date now' date')) v))
   \<and> (\<exists>pre. fst (try_catch_finally body handler sendFinally)
        = pre @ [Dispatch (SetIsProcessingR False)])
   \<and> \<not> isProcessing (store (perform_all reducer_remote
          (fst (try_catch_finally body handler sendFinally)) v))
   \<and> (\<exists>pre. handleSendMessage_timeout userContent now date
        = pre @ [Dispatch (SetIsProcessing False)])
   \<and> \<not> isProcessing (store (perform_all reducer
          (handleSendMessage_timeout userContent now date) w))
   \<and> (\<exists>pre. fst (handleFileUpload (Some f) uploadReply statusReply documentsReply)
        = pre @ [Dispatch (SetIsIndexingR False)])
   \<and> snd (handleFileUpload (Some f) uploadReply statusReply documentsReply) = None
   \<and> \<not> isIndexing (store (perform_all reducer_remote
          (fst (handleFileUpload (Some f) uploadReply statusReply documentsReply)) v))
   \<and> (\<exists>pre. handleIndexDocuments_timeout = pre @ [Dispatch (SetIsIndexing False)])
   \<and> \<not> isIndexing (store (perform_all reducer handleIndexDocuments_timeout w))"
proof -
  obtain p1 where p1: "fst (handleSendMessage_settled reply now date now' date')
        = p1 @ [Dispatch (SetIsProcessingR False)]"
    unfolding handleSendMessage_settled_def sendFinally_def
    using try_catch_finally_ends_with_cleanup by blast
  have s1: "snd (handleSendMessage_settled reply now date now' date') = None"
    by (simp add: handleSendMessage_settled_cases split: settled.splits option.splits)
  obtain p2 where p2: "fst (try_catch_finally body handler sendFinally)
        = p2 @ [Dispatch (SetIsProcessingR False)]"
    unfolding sendFinally_def using try_catch_finally_ends_with_cleanup by blast
  have p3: "handleSendMessage_timeout userContent now date
        = [Dispatch (AddMessage (aiMessage now date userContent))] @ [Dispatch (SetIsProcessing False)]"
    by (simp add: handleSendMessage_timeout_def)
  have q3: "\<not> isProcessing (store (perform_all reducer
          (handleSendMessage_timeout userContent now date) w))"
    by (simp add: handleSendMessage_timeout_def perform_all_Cons perform_all_Nil
        setIsProcessing_def addMessage_def)
  obtain p4 where p4: "fst (handleFileUpload (Some f) uploadReply statusReply documentsReply)
        = p4 @ [Dispatch (SetIsIndexingR False)]"
    using handleFileUpload_ends_with_cleanup [of f uploadReply statusReply documentsReply]
    by blast
  have p5: "handleIndexDocuments_timeout = [Dispatch SimulateIndexing] @ [Dispatch (SetIsIndexing False)]"
    by (simp add: handleIndexDocuments_timeout_def)
  have q5: "\<not> isIndexing (store (perform_all reducer handleIndexDocuments_timeout w))"
    by (simp add: handleIndexDocuments_timeout_def perform_all_Cons perform_all_Nil
        setIsIndexing_def simulateIndexing_def)
  have q1: "\<not> isProcessing (store (perform_all reducer_remote
          (fst (handleSendMessage_settled reply now date now' date')) v))"
    by (simp only: p1 isProcessing_after_cleanup) simp
  have q2: "\<not> isProcessing (store (perform_all reducer_remote
          (fst (try_catch_finally body handler sendFinally)) v))"
    by (simp only: p2 isProcessing_after_cleanup) simp
  have q4: "\<not> isIndexing (store (perform_all reducer_remote
          (fst (handleFileUpload (Some f) uploadReply statusReply documentsReply)) v))"
    by (simp only: p4 isIndexing_after_cleanup) simp
  from p1 s1 q1 p2 q2 p3 q3 p4 q4 p5 q5 handleFileUpload_swallows [of "Some f" uploadReply statusReply documentsReply]
  show ?thesis by blast
qed

text \<open>
  Claim C4. A call of \<^verbatim>\<open>handleSendMessage\<close> whose input is empty after trimming, or that
  is made while \<^verbatim>\<open>isProcessing\<close> is true, returns at the guard: it performs no event (no
  action is dispatched, the input is not cleared), sets no timer and makes no request,
  so the store and the component's input are exactly what they were. This holds for both
  pages.
\<close>

theorem C4_guarded_submit_is_noop:
  fixes w :: "(string, source) chat_state ui" and v :: "(string option, remote_source) remote_chat_state ui"
  shows
  "(trim (input w) = [] \<or> isProcessing (store w) \<longrightarrow>
      handleSendMessage now date w = ([], None)
    \<and> perform_all reducer (fst (handleSendMessage now date w)) w = w)
   \<and>
   (trim (input v) = [] \<or> isProcessing (store v) \<longrightarrow>
      handleSendMessage_remote now date v = ([], None)
    \<and> perform_all reducer_remote (fst (handleSendMessage_remote now date v)) v = v)"
  by (auto simp: handleSendMessage_def handleSendMessage_remote_def perform_all_Nil)

text \<open>The hypotheses of C4: the white-space input "   " on the mock page, and a
  submission while \<^verbatim>\<open>isProcessing\<close> is true on the backend page.\<close>

theorem C4_witness:
  "trim (input \<lparr>store = initialState, input = ''   '', console = []\<rparr>) = []
   \<and> handleSendMessage 7 7 \<lparr>store = initialState, input = ''   '', console = []\<rparr> = ([], None)
   \<and> perform_all reducer
        (fst (handleSendMessage 7 7 \<lparr>store = initialState, input = ''   '', console = []\<rparr>))
        \<lparr>store = initialState, input = ''   '', console = []\<rparr>
       = \<lparr>store = initialState, input = ''   '', console = []\<rparr>
   \<and> isProcessing (store \<lparr>store = setIsProcessing True initialState_remote,
                            input = ''hello'', console = []\<rparr>)
   \<and> handleSendMessage_remote 7 7
        \<lparr>store = setIsProcessing True initialState_remote, input = ''hello'', console = []\<rparr>
       = ([], None)
   \<and> messages (store (perform_all reducer_remote
        (fst (handleSendMessage_remote 7 7
           \<lparr>store = setIsProcessing True initialState_remote, input = ''hello'', console = []\<rparr>))
        \<lparr>store = setIsProcessing True initialState_remote, input = ''hello'', console = []\<rparr>))
       = []"
proof -
  have t: "trim ''   '' = []"
    by (simp add: trim_def isWhiteSpace_def)
  have p: "isProcessing (setIsProcessing True initialState_remote)"
    "messages (setIsProcessing True initialState_remote) = []"
    by (simp_all add: setIsProcessing_def initialState_remote_def)
  show ?thesis
    using C4_guarded_submit_is_noop
      [where w = "\<lparr>store = initialState, input = ''   '', console = []\<rparr>"
         and v = "\<lparr>store = setIsProcessing True initialState_remote, input = ''hello'',
                    console = []\<rparr>"
         and now = 7 and date = 7]
    by (simp add: t p perform_all_Nil)
qed

text \<open>
  Claim C5, as amended. On the backend page, when the \<^verbatim>\<open>try\<close> block raises (the chat
  request is rejected, or its body is \<^verbatim>\<open>null\<close> or \<^verbatim>\<open>undefined\<close> so that reading
  \<^verbatim>\<open>response_text\<close> raises), the handler appends exactly the error message: an assistant
  message whose content is the fixed connectivity-error string and which carries no
  sources (the field is absent, and the message view shows none); no exception leaves
  the handler and \<^verbatim>\<open>isProcessing\<close> is false afterwards. A request that is resolved with
  any other body is not a failure to the handler, also when the body is not what the
  page expects (it is not JSON, or it has no \<^verbatim>\<open>response_text\<close>): the handler then appends
  an assistant message that copies \<^verbatim>\<open>response_text\<close> and \<^verbatim>\<open>sources\<close> as they are read from
  the body, \<^verbatim>\<open>undefined\<close> where the body has none, writes nothing to the console, and
  \<^verbatim>\<open>isProcessing\<close> is false afterwards as well.
\<close>

theorem C5_error_message_exactly_when_try_block_raises:
  fixes v :: "(string option, remote_source) remote_chat_state ui"
  shows
  "(failed reply \<longrightarrow>
      snd (handleSendMessage_settled reply now date now' date') = None
    \<and> messages (store (perform_all reducer_remote
          (fst (handleSendMessage_settled reply now date now' date')) v))
        = messages (store v) @ [errorMessage now' date']
    \<and> role (errorMessage now' date') = Assistant
    \<and> content (errorMessage now' date')
        = Some ''Sorry, I'm having trouble connecting to the server. Please try again later.''
    \<and> sources (errorMessage now' date') = None
    \<and> shownSources (errorMessage now' date') = []
    \<and> \<not> isProcessing (store (perform_all reducer_remote
          (fst (handleSendMessage_settled reply now date now' date')) v)))
   \<and>
   (reply = Resolved (Some response) \<longrightarrow>
      snd (handleSendMessage_settled reply now date now' date') = None
    \<and> messages (store (perform_all reducer_remote
          (fst (handleSendMessage_settled reply now date now' date')) v))
        = messages (store v) @ [aiMessage_remote now date response]
    \<and> role (aiMessage_remote now date response) = Assistant
    \<and> content (aiMessage_remote now date response) = response_text response
    \<and> sources (aiMessage_remote now date response) = chat_data.sources response
    \<and> console (perform_all reducer_remote
          (fst (handleSendMessage_settled reply now date now' date')) v) = console v
    \<and> \<not> isProcessing (store (perform_all reducer_remote
          (fst (handleSendMessage_settled reply now date now' date')) v)))"
proof -
  have raised: "failed reply \<longrightarrow>
      snd (handleSendMessage_settled reply now date now' date') = None
    \<and> messages (store (perform_all reducer_remote
          (fst (handleSendMessage_settled reply now date now' date')) v))
        = messages (store v) @ [errorMessage now' date']
    \<and> \<not> isProcessing (store (perform_all reducer_remote
          (fst (handleSendMessage_settled reply now date now' date')) v))"
    by (auto simp: failed_def handleSendMessage_settled_cases perform_all_Cons perform_all_Nil
        addMessage_def setIsProcessing_def split: settled.splits option.splits)
  have err: "role (errorMessage now' date') = Assistant
    \<and> content (errorMessage now' date')
        = Some ''Sorry, I'm having trouble connecting to the server. Please try again later.''
    \<and> sources (errorMessage now' date') = None
    \<and> shownSources (errorMessage now' date') = []"
    by (simp add: errorMessage_def shownSources_def)
  have resolved: "reply = Resolved (Some response) \<longrightarrow>
      snd (handleSendMessage_settled reply now date now' date') = None
    \<and> messages (store (perform_all reducer_remote
          (fst (handleSendMessage_settled reply now date now' date')) v))
        = messages (store v) @ [aiMessage_remote now date response]
    \<and> console (perform_all reducer_remote
          (fst (handleSendMessage_settled reply now date now' date')) v) = console v
    \<and> \<not> isProcessing (store (perform_all reducer_remote
          (fst (handleSendMessage_settled reply now date now' date')) v))"
    by (simp add: handleSendMessage_settled_cases perform_all_Cons perform_all_Nil
        addMessage_def setIsProcessing_def)
  have ai: "role (aiMessage_remote now date response) = Assistant
    \<and> content (aiMessage_remote now date response) = response_text response
    \<and> sources (aiMessage_remote now date response) = chat_data.sources response"
    by (simp add: aiMessage_remote_def)
  show ?thesis
  proof (intro conjI impI)
  qed (use raised err resolved ai in simp_all)
qed

text \<open>The hypotheses of C5: a rejected request, and a request resolved with a body that
  has both properties, each on a store that is processing.\<close>

theorem C5_witness:
  "failed (Rejected :: chat_data option settled)
   \<and> messages (store (perform_all reducer_remote
         (fst (handleSendMessage_settled Rejected 9 9 9 9))
         \<lparr>store = setIsProcessing True initialState_remote, input = [], console = []\<rparr>))
       = [errorMessage 9 9]
   \<and> \<not> isProcessing (store (perform_all reducer_remote
         (fst (handleSendMessage_settled Rejected 9 9 9 9))
         \<lparr>store = setIsProcessing True initialState_remote, input = [], console = []\<rparr>))
   \<and> messages (store (perform_all reducer_remote
         (fst (handleSendMessage_settled
            (Resolved (Some \<lparr>response_text = Some ''Revenue grew.'',
                             chat_data.sources = Some [\<lparr>remote_source.title = ''Report'',
                                                         uri = ''file:report.pdf''\<rparr>]\<rparr>))
            9 9 9 9))
         \<lparr>store = setIsProcessing True initialState_remote, input = [], console = []\<rparr>))
       = [aiMessage_remote 9 9
            \<lparr>response_text = Some ''Revenue grew.'',
             chat_data.sources = Some [\<lparr>remote_source.title = ''Report'',
                                         uri = ''file:report.pdf''\<rparr>]\<rparr>]
   \<and> content (aiMessage_remote 9 9
            \<lparr>response_text = Some ''Revenue grew.'',
             chat_data.sources = Some [\<lparr>remote_source.title = ''Report'',
                                         uri = ''file:report.pdf''\<rparr>]\<rparr>)
       = Some ''Revenue grew.''"
proof -
  have f: "failed (Rejected :: chat_data option settled)"
    by (simp add: failed_def)
  have m: "messages (setIsProcessing True initialState_remote) = []"
    by (simp add: setIsProcessing_def initialState_remote_def)
  show ?thesis
    using f
      C5_error_message_exactly_when_try_block_raises
      [where reply = Rejected and now = 9 and date = 9 and now' = 9 and date' = 9
         and v = "\<lparr>store = setIsProcessing True initialState_remote, input = [], console = []\<rparr>"]
      C5_error_message_exactly_when_try_block_raises
      [where reply = "Resolved (Some \<lparr>response_text = Some ''Revenue grew.'',
                             chat_data.sources = Some [\<lparr>remote_source.title = ''Report'',
                                                         uri = ''file:report.pdf''\<rparr>]\<rparr>)"
         and response = "\<lparr>response_text = Some ''Revenue grew.'',
                             chat_data.sources = Some [\<lparr>remote_source.title = ''Report'',
                                                         uri = ''file:report.pdf''\<rparr>]\<rparr>"
         and now = 9 and date = 9 and now' = 9 and date' = 9
         and v = "\<lparr>store = setIsProcessing True initialState_remote, input = [], console = []\<rparr>"]
    by (simp add: m)
qed

text \<open>
  Claim C5 as stated fails at a decode error: the request is resolved with a body that
  is not the JSON the page expects, so that the page reads \<^verbatim>\<open>undefined\<close> for
  \<^verbatim>\<open>response_text\<close> and for \<^verbatim>\<open>sources\<close>. Nothing raises, nothing is written to the console,
  and the one assistant message that is appended has the content \<^verbatim>\<open>undefined\<close>, not the
  connectivity-error string.
\<close>

theorem C5_counterexample:
  "snd (handleSendMessage_settled
      (Resolved (Some \<lparr>response_text = None, chat_data.sources = None\<rparr>)) 9 9 9 9) = None
   \<and> messages (store (perform_all reducer_remote
        (fst (handleSendMessage_settled
           (Resolved (Some \<lparr>response_text = None, chat_data.sources = None\<rparr>)) 9 9 9 9))
        \<lparr>store = setIsProcessing True initialState_remote, input = [], console = []\<rparr>))
       = [\<lparr>msg_id = toString 10, role = Assistant, content = None, sources = None,
           timestamp = 9\<rparr>]
   \<and> content (last (messages (store (perform_all reducer_remote
        (fst (handleSendMessage_settled
           (Resolved (Some \<lparr>response_text = None, chat_data.sources = None\<rparr>)) 9 9 9 9))
        \<lparr>store = setIsProcessing True initialState_remote, input = [], console = []\<rparr>))))
       \<noteq> Some ''Sorry, I'm having trouble connecting to the server. Please try again later.''
   \<and> console (perform_all reducer_remote
        (fst (handleSendMessage_settled
           (Resolved (Some \<lparr>response_text = None, chat_data.sources = None\<rparr>)) 9 9 9 9))
        \<lparr>store = setIsProcessing True initialState_remote, input = [], console = []\<rparr>)
       = []"
  by (simp add: handleSendMessage_settled_cases perform_all_Cons perform_all_Nil addMessage_def
      setIsProcessing_def aiMessage_remote_def initialState_remote_def)

section \<open>Documents and indexing\<close>

lemma reducer_keeps_mock_documents:
  "documents st = MOCK_DOCUMENTS \<Longrightarrow> documents (reducer a st) = MOCK_DOCUMENTS"
  by (cases a)
    (simp_all add: addMessage_def setIsProcessing_def setIsIndexing_def simulateIndexing_def
      MOCK_DOCUMENTS_def)

lemma dispatch_all_keeps_mock_documents:
  "documents st = MOCK_DOCUMENTS \<Longrightarrow> documents (dispatch_all st acts) = MOCK_DOCUMENTS"
proof (induction acts arbitrary: st)
  case Nil
  then show ?case by (simp add: dispatch_all_def)
next
  case (Cons a acts)
  have "dispatch_all st (a # acts) = dispatch_all (reducer a st) acts"
    by (simp add: dispatch_all_def)
  with Cons show ?case by (simp add: reducer_keeps_mock_documents)
qed

lemma reachable_documents:
  "documents (dispatch_all initialState acts) = MOCK_DOCUMENTS"
  by (rule dispatch_all_keeps_mock_documents) (simp add: initialState_def)

lemma perform_keeps_mock_documents:
  "documents (store w) = MOCK_DOCUMENTS \<Longrightarrow> documents (store (perform reducer e w)) = MOCK_DOCUMENTS"
  by (cases e) (simp_all add: reducer_keeps_mock_documents)

lemma perform_all_keeps_mock_documents:
  "documents (store w) = MOCK_DOCUMENTS \<Longrightarrow>
   documents (store (perform_all reducer evs w)) = MOCK_DOCUMENTS"
proof (induction evs arbitrary: w)
  case Nil
  then show ?case by (simp add: perform_all_Nil)
next
  case (Cons e evs)
  then show ?case by (simp add: perform_all_Cons perform_keeps_mock_documents)
qed

lemma mock_documents_indexed:
  "list_all (\<lambda>d. status d = Indexed) MOCK_DOCUMENTS"
  "indexedCount_panel MOCK_DOCUMENTS = length MOCK_DOCUMENTS"
  "\<not> list_ex (\<lambda>d. status d = Pending) MOCK_DOCUMENTS"
  "\<not> reverted MOCK_DOCUMENTS MOCK_DOCUMENTS"
  by (simp_all add: MOCK_DOCUMENTS_def indexedCount_panel_def reverted_def)

text \<open>
  Claim C10. On the mock page the document list of the store is the seed
  \<^const>\<open>MOCK_DOCUMENTS\<close> after every sequence of actions from the initial state (and after
  every sequence of handler events): the seed holds only indexed documents and the one
  action that writes the list, \<^verbatim>\<open>simulateIndexing\<close>, maps every status to indexed. So in
  every reachable state every document is indexed, none is pending, and the panel's
  derived \<^verbatim>\<open>indexedCount\<close> equals the number of documents.
\<close>

theorem C10_mock_documents_always_indexed:
  "documents (dispatch_all initialState acts) = MOCK_DOCUMENTS
   \<and> list_all (\<lambda>d. status d = Indexed) (documents (dispatch_all initialState acts))
   \<and> \<not> list_ex (\<lambda>d. status d = Pending) (documents (dispatch_all initialState acts))
   \<and> indexedCount_panel (documents (dispatch_all initialState acts))
       = length (documents (dispatch_all initialState acts))
   \<and> list_all (\<lambda>d. status d = Indexed)
       (documents (store (perform_all reducer evs \<lparr>store = initialState, input = inp, console = []\<rparr>)))
   \<and> indexedCount_panel
       (documents (store (perform_all reducer evs \<lparr>store = initialState, input = inp, console = []\<rparr>)))
       = length (documents (store (perform_all reducer evs
           \<lparr>store = initialState, input = inp, console = []\<rparr>)))"
proof -
  have "documents (store (perform_all reducer evs
      \<lparr>store = initialState, input = inp, console = []\<rparr>)) = MOCK_DOCUMENTS"
    by (rule perform_all_keeps_mock_documents) (simp add: initialState_def)
  then show ?thesis
    by (simp add: reachable_documents mock_documents_indexed)
qed

lemma reducer_documents:
  "documents (reducer a st) = documents st
   \<or> documents (reducer a st) = map (\<lambda>doc. doc\<lparr>status := Indexed\<rparr>) (documents st)"
  by (cases a)
    (simp_all add: addMessage_def setIsProcessing_def setIsIndexing_def simulateIndexing_def)

lemma reducer_monotone:
  "list_all2 (\<lambda>d d'. doc_id d' = doc_id d \<and> name d' = name d
        \<and> (status d = Indexed \<longrightarrow> status d' = Indexed))
     (documents st) (documents (reducer a st))"
  using reducer_documents [of a st]
  by (auto simp: list_all2_conv_all_nth)

lemma reducer_remote_documents:
  "(\<forall>ds. a \<noteq> SetDocumentsR ds) \<Longrightarrow> documents (reducer_remote a st) = documents st"
  by (cases a)
    (simp_all add: addMessage_def setMessages_def setIsProcessing_def setIsIndexing_def
      setIndexedCount_def)

lemma fetch_cases:
  "fst (fetchStatusAndDocuments statusReply documentsReply) =
     (case statusReply of
        Rejected \<Rightarrow> [ConsoleError ''Failed to fetch status or documents'' AxiosError]
      | Resolved None \<Rightarrow> [ConsoleError ''Failed to fetch status or documents'' TypeError]
      | Resolved (Some statusData) \<Rightarrow>
          (case documentsReply of
             Rejected \<Rightarrow> [Dispatch (SetIndexedCountR (indexed_count statusData)),
                           ConsoleError ''Failed to fetch status or documents'' AxiosError]
           | Resolved documentsData \<Rightarrow>
               [Dispatch (SetIndexedCountR (indexed_count statusData)),
                Dispatch (SetDocumentsR documentsData)]))"
  by (simp add: fetchStatusAndDocuments_def try_catch_def and_then_def
      split: settled.splits option.splits)

text \<open>
  Claim C7, as amended. On the mock page a status never reverts: every action keeps the
  list's length and each document's id and name, and an indexed document stays indexed;
  no sequence of actions from the initial state takes a document from indexed to
  pending. On the backend page every action other than \<^verbatim>\<open>setDocuments\<close> leaves the
  document list as it is, while \<^verbatim>\<open>setDocuments\<close>, which the refresh dispatches with the
  body of the documents request, replaces the list by that body unchanged: after a
  refresh whose two reads succeed the statuses are the backend's, whatever they were
  before.
\<close>

theorem C7_status_monotone_on_mock_replaced_on_backend:
  fixes st :: "(string, source) chat_state" and rt :: "(string option, remote_source) remote_chat_state"
    and v :: "(string option, remote_source) remote_chat_state ui"
  shows
  "list_all2 (\<lambda>d d'. doc_id d' = doc_id d \<and> name d' = name d
        \<and> (status d = Indexed \<longrightarrow> status d' = Indexed))
     (documents st) (documents (reducer a st))
   \<and> \<not> reverted (documents (dispatch_all initialState acts))
        (documents (dispatch_all initialState (acts @ later)))
   \<and> ((\<forall>ds. b \<noteq> SetDocumentsR ds) \<longrightarrow> documents (reducer_remote b rt) = documents rt)
   \<and> documents (reducer_remote (SetDocumentsR ds) rt) = ds
   \<and> documents (store (perform_all reducer_remote
        (fst (fetchStatusAndDocuments statusReply documentsReply)) v))
       = (case (statusReply, documentsReply) of
            (Resolved (Some statusData), Resolved documentsData) \<Rightarrow> documentsData
          | _ \<Rightarrow> documents (store v))"
proof -
  have a: "\<not> reverted (documents (dispatch_all initialState acts))
        (documents (dispatch_all initialState (acts @ later)))"
    by (simp add: reachable_documents mock_documents_indexed)
  have b: "documents (reducer_remote (SetDocumentsR ds) rt) = ds"
    by (simp add: setDocuments_def)
  have c: "documents (store (perform_all reducer_remote
        (fst (fetchStatusAndDocuments statusReply documentsReply)) v))
       = (case (statusReply, documentsReply) of
            (Resolved (Some statusData), Resolved documentsData) \<Rightarrow> documentsData
          | _ \<Rightarrow> documents (store v))"
    by (simp add: fetch_cases perform_all_Cons perform_all_Nil setIndexedCount_def
        setDocuments_def split: settled.splits option.splits)
  from a b c reducer_monotone [of st a] reducer_remote_documents [of b rt]
  show ?thesis by blast
qed

text \<open>The hypotheses of C7: \<^verbatim>\<open>simulateIndexing\<close> on a list with an indexed and a pending
  document, and an action of the backend page that is not \<^verbatim>\<open>setDocuments\<close>.\<close>

theorem C7_witness:
  "list_all2 (\<lambda>d d'. doc_id d' = doc_id d \<and> name d' = name d
        \<and> (status d = Indexed \<longrightarrow> status d' = Indexed))
     [\<lparr>doc_id = ''1'', name = ''a.pdf'', status = Indexed\<rparr>,
      \<lparr>doc_id = ''2'', name = ''b.pdf'', status = Pending\<rparr>]
     (documents (reducer SimulateIndexing
        \<lparr>messages = [], isProcessing = False,
         documents = [\<lparr>doc_id = ''1'', name = ''a.pdf'', status = Indexed\<rparr>,
                      \<lparr>doc_id = ''2'', name = ''b.pdf'', status = Pending\<rparr>],
         isIndexing = True\<rparr>))
   \<and> status (documents (reducer SimulateIndexing
        \<lparr>messages = [], isProcessing = False,
         documents = [\<lparr>doc_id = ''1'', name = ''a.pdf'', status = Indexed\<rparr>,
                      \<lparr>doc_id = ''2'', name = ''b.pdf'', status = Pending\<rparr>],
         isIndexing = True\<rparr>) ! 0) = Indexed
   \<and> documents (reducer_remote (SetIsIndexingR True)
        (setDocuments [\<lparr>doc_id = ''1'', name = ''a.pdf'', status = Indexed\<rparr>] initialState_remote))
       = [\<lparr>doc_id = ''1'', name = ''a.pdf'', status = Indexed\<rparr>]"
proof -
  have h: "\<forall>ds. SetIsIndexingR True \<noteq> SetDocumentsR ds"
    by simp
  have d: "documents (setDocuments [\<lparr>doc_id = ''1'', name = ''a.pdf'', status = Indexed\<rparr>]
      initialState_remote) = [\<lparr>doc_id = ''1'', name = ''a.pdf'', status = Indexed\<rparr>]"
    by (simp add: setDocuments_def)
  have s: "status (documents (reducer SimulateIndexing
        \<lparr>messages = [], isProcessing = False,
         documents = [\<lparr>doc_id = ''1'', name = ''a.pdf'', status = Indexed\<rparr>,
                      \<lparr>doc_id = ''2'', name = ''b.pdf'', status = Pending\<rparr>],
         isIndexing = True\<rparr>) ! 0) = Indexed"
    by (simp add: simulateIndexing_def)
  show ?thesis
    using h s C7_status_monotone_on_mock_replaced_on_backend
      [where st = "\<lparr>messages = [], isProcessing = False,
         documents = [\<lparr>doc_id = ''1'', name = ''a.pdf'', status = Indexed\<rparr>,
                      \<lparr>doc_id = ''2'', name = ''b.pdf'', status = Pending\<rparr>],
         isIndexing = True\<rparr>"
         and a = SimulateIndexing and b = "SetIsIndexingR True"
         and rt = "setDocuments [\<lparr>doc_id = ''1'', name = ''a.pdf'', status = Indexed\<rparr>]
            initialState_remote"]
    by (simp add: d)
qed

text \<open>
  Claim C7 as stated fails on the backend page: a refresh stores the document "1" as
  indexed, and the next refresh, whose documents request answers with the same document
  as pending, stores it as pending.
\<close>

theorem C7_counterexample:
  "reverted
     (documents (store (perform_all reducer_remote
        (fst (fetchStatusAndDocuments (Resolved (Some \<lparr>indexed_count = 1\<rparr>))
           (Resolved [\<lparr>doc_id = ''1'', name = ''report.pdf'', status = Indexed\<rparr>])))
        \<lparr>store = initialState_remote, input = [], console = []\<rparr>)))
     (documents (store (perform_all reducer_remote
        (fst (fetchStatusAndDocuments (Resolved (Some \<lparr>indexed_count = 1\<rparr>))
           (Resolved [\<lparr>doc_id = ''1'', name = ''report.pdf'', status = Indexed\<rparr>]))
         @ fst (fetchStatusAndDocuments (Resolved (Some \<lparr>indexed_count = 0\<rparr>))
           (Resolved [\<lparr>doc_id = ''1'', name = ''report.pdf'', status = Pending\<rparr>])))
        \<lparr>store = initialState_remote, input = [], console = []\<rparr>)))"
  by (simp add: fetch_cases perform_all_Cons perform_all_Nil setIndexedCount_def setDocuments_def
      reverted_def)


lemma upload_cases:
  "fst (handleFileUpload (Some f) uploadReply statusReply documentsReply) =
     (case uploadReply of
        Rejected \<Rightarrow>
          [Dispatch (SetIsIndexingR True),
           ConsoleError ''Failed to upload document'' AxiosError,
           Dispatch (SetIsIndexingR False)]
      | Resolved ack \<Rightarrow>
          Dispatch (SetIsIndexingR True)
            # fst (fetchStatusAndDocuments statusReply documentsReply)
            @ [Dispatch (SetIsIndexingR False)])"
proof -
  obtain es where "fetchStatusAndDocuments statusReply documentsReply = (es, None)"
    using fetchStatusAndDocuments_swallows [of statusReply documentsReply]
    by (cases "fetchStatusAndDocuments statusReply documentsReply") simp
  then show ?thesis
    by (simp add: handleFileUpload_def and_then_def try_catch_finally_def split: settled.splits)
qed

lemma fetch_effect:
  fixes v :: "(string option, remote_source) remote_chat_state ui"
  shows "perform_all reducer_remote (fst (fetchStatusAndDocuments statusReply documentsReply)) v =
     (case statusReply of
        Rejected \<Rightarrow>
          v\<lparr>console := console v @ [(''Failed to fetch status or documents'', AxiosError)]\<rparr>
      | Resolved None \<Rightarrow>
          v\<lparr>console := console v @ [(''Failed to fetch status or documents'', TypeError)]\<rparr>
      | Resolved (Some statusData) \<Rightarrow>
          (case documentsReply of
             Rejected \<Rightarrow>
               v\<lparr>store := (store v)\<lparr>indexedCount := indexed_count statusData\<rparr>,
                  console := console v @ [(''Failed to fetch status or documents'', AxiosError)]\<rparr>
           | Resolved documentsData \<Rightarrow>
               v\<lparr>store := (store v)\<lparr>indexedCount := indexed_count statusData,
                                        documents := documentsData\<rparr>\<rparr>))"
  by (simp add: fetch_cases perform_all_Cons perform_all_Nil setIndexedCount_def setDocuments_def
      split: settled.splits option.splits)

text \<open>
  Claim C6, as amended. On the backend page, when a refresh fails (the status request is
  rejected or its body cannot be read, or the documents request is rejected), no
  exception leaves \<^verbatim>\<open>fetchStatusAndDocuments\<close>, one entry is written to the console, and
  the document list, the messages, \<^verbatim>\<open>isProcessing\<close> and \<^verbatim>\<open>isIndexing\<close> are what they were;
  \<^verbatim>\<open>indexedCount\<close> is what it was when the status read failed, and is already the status
  read's count when only the documents read failed. When an upload of a chosen file
  fails, or the refresh after it does, no exception leaves \<^verbatim>\<open>handleFileUpload\<close>, one entry
  is written to the console, \<^verbatim>\<open>isIndexing\<close> is false at the end, the document list, the
  messages and \<^verbatim>\<open>isProcessing\<close> are what they were, and \<^verbatim>\<open>indexedCount\<close> changes only when
  the upload and the status read both succeeded.
\<close>

theorem C6_failed_refresh_or_upload_is_swallowed:
  fixes v :: "(string option, remote_source) remote_chat_state ui"
  shows
  "(failed statusReply \<or> rejected documentsReply \<longrightarrow>
      snd (fetchStatusAndDocuments statusReply documentsReply) = None
    \<and> documents (store (perform_all reducer_remote
          (fst (fetchStatusAndDocuments statusReply documentsReply)) v)) = documents (store v)
    \<and> isIndexing (store (perform_all reducer_remote
          (fst (fetchStatusAndDocuments statusReply documentsReply)) v)) = isIndexing (store v)
    \<and> messages (store (perform_all reducer_remote
          (fst (fetchStatusAndDocuments statusReply documentsReply)) v)) = messages (store v)
    \<and> isProcessing (store (perform_all reducer_remote
          (fst (fetchStatusAndDocuments statusReply documentsReply)) v)) = isProcessing (store v)
    \<and> indexedCount (store (perform_all reducer_remote
          (fst (fetchStatusAndDocuments statusReply documentsReply)) v))
        = (case statusReply of Resolved (Some statusData) \<Rightarrow> indexed_count statusData
           | _ \<Rightarrow> indexedCount (store v))
    \<and> length (console (perform_all reducer_remote
          (fst (fetchStatusAndDocuments statusReply documentsReply)) v))
        = length (console v) + 1)
   \<and>
   (rejected uploadReply \<or> failed statusReply \<or> rejected documentsReply \<longrightarrow>
      snd (handleFileUpload (Some f) uploadReply statusReply documentsReply) = None
    \<and> isIndexing (store (perform_all reducer_remote
          (fst (handleFileUpload (Some f) uploadReply statusReply documentsReply)) v)) = False
    \<and> documents (store (perform_all reducer_remote
          (fst (handleFileUpload (Some f) uploadReply statusReply documentsReply)) v))
        = documents (store v)
    \<and> messages (store (perform_all reducer_remote
          (fst (handleFileUpload (Some f) uploadReply statusReply documentsReply)) v))
        = messages (store v)
    \<and> isProcessing (store (perform_all reducer_remote
          (fst (handleFileUpload (Some f) uploadReply statusReply documentsReply)) v))
        = isProcessing (store v)
    \<and> indexedCount (store (perform_all reducer_remote
          (fst (handleFileUpload (Some f) uploadReply statusReply documentsReply)) v))
        = (case (uploadReply, statusReply) of
             (Resolved ack, Resolved (Some statusData)) \<Rightarrow> indexed_count statusData
           | _ \<Rightarrow> indexedCount (store v))
    \<and> length (console (perform_all reducer_remote
          (fst (handleFileUpload (Some f) uploadReply statusReply documentsReply)) v))
        = length (console v) + 1)"
proof -
  have refresh: "failed statusReply \<or> rejected documentsReply \<longrightarrow>
      documents (store (perform_all reducer_remote
          (fst (fetchStatusAndDocuments statusReply documentsReply)) v)) = documents (store v)
    \<and> isIndexing (store (perform_all reducer_remote
          (fst (fetchStatusAndDocuments statusReply documentsReply)) v)) = isIndexing (store v)
    \<and> messages (store (perform_all reducer_remote
          (fst (fetchStatusAndDocuments statusReply documentsReply)) v)) = messages (store v)
    \<and> isProcessing (store (perform_all reducer_remote
          (fst (fetchStatusAndDocuments statusReply documentsReply)) v)) = isProcessing (store v)
    \<and> indexedCount (store (perform_all reducer_remote
          (fst (fetchStatusAndDocuments statusReply documentsReply)) v))
        = (case statusReply of Resolved (Some statusData) \<Rightarrow> indexed_count statusData
           | _ \<Rightarrow> indexedCount (store v))
    \<and> length (console (perform_all reducer_remote
          (fst (fetchStatusAndDocuments statusReply documentsReply)) v))
        = length (console v) + 1"
    by (simp add: fetch_effect failed_def rejected_def split: settled.splits option.splits)
  have upload: "rejected uploadReply \<or> failed statusReply \<or> rejected documentsReply \<longrightarrow>
      isIndexing (store (perform_all reducer_remote
          (fst (handleFileUpload (Some f) uploadReply statusReply documentsReply)) v)) = False
    \<and> documents (store (perform_all reducer_remote
          (fst (handleFileUpload (Some f) uploadReply statusReply documentsReply)) v))
        = documents (store v)
    \<and> messages (store (perform_all reducer_remote
          (fst (handleFileUpload (Some f) uploadReply statusReply documentsReply)) v))
        = messages (store v)
    \<and> isProcessing (store (perform_all reducer_remote
          (fst (handleFileUpload (Some f) uploadReply statusReply documentsReply)) v))
        = isProcessing (store v)
    \<and> indexedCount (store (perform_all reducer_remote
          (fst (handleFileUpload (Some f) uploadReply statusReply documentsReply)) v))
        = (case (uploadReply, statusReply) of
             (Resolved ack, Resolved (Some statusData)) \<Rightarrow> indexed_count statusData
           | _ \<Rightarrow> indexedCount (store v))
    \<and> length (console (perform_all reducer_remote
          (fst (handleFileUpload (Some f) uploadReply statusReply documentsReply)) v))
        = length (console v) + 1"
    by (simp add: upload_cases perform_all_Cons perform_all_append perform_all_Nil fetch_effect
        setIsIndexing_def failed_def rejected_def split: settled.splits option.splits)
  from refresh upload fetchStatusAndDocuments_swallows [of statusReply documentsReply]
    handleFileUpload_swallows [of "Some f" uploadReply statusReply documentsReply]
  show ?thesis by blast
qed

text \<open>The hypotheses of C6 at a refresh, and an upload followed by a refresh, whose
  documents request is rejected after the status request answered 5.\<close>

theorem C6_witness:
  "rejected (Rejected :: document list settled)
   \<and> documents (store (perform_all reducer_remote
        (fst (fetchStatusAndDocuments (Resolved (Some \<lparr>indexed_count = 5\<rparr>)) Rejected))
        \<lparr>store = initialState_remote, input = [], console = []\<rparr>)) = []
   \<and> indexedCount (store (perform_all reducer_remote
        (fst (fetchStatusAndDocuments (Resolved (Some \<lparr>indexed_count = 5\<rparr>)) Rejected))
        \<lparr>store = initialState_remote, input = [], console = []\<rparr>)) = 5
   \<and> isIndexing (store (perform_all reducer_remote
        (fst (handleFileUpload (Some ''notes.txt'') (Resolved ())
           (Resolved (Some \<lparr>indexed_count = 5\<rparr>)) Rejected))
        \<lparr>store = initialState_remote, input = [], console = []\<rparr>)) = False
   \<and> documents (store (perform_all reducer_remote
        (fst (handleFileUpload (Some ''notes.txt'') (Resolved ())
           (Resolved (Some \<lparr>indexed_count = 5\<rparr>)) Rejected))
        \<lparr>store = initialState_remote, input = [], console = []\<rparr>)) = []"
proof -
  have r: "rejected (Rejected :: document list settled)"
    by (simp add: rejected_def)
  have i: "documents initialState_remote = []"
    by (simp add: initialState_remote_def)
  show ?thesis
    using r C6_failed_refresh_or_upload_is_swallowed
      [where statusReply = "Resolved (Some \<lparr>indexed_count = 5\<rparr>)" and documentsReply = Rejected
         and uploadReply = "Resolved ()" and f = "''notes.txt''"
         and v = "\<lparr>store = initialState_remote, input = [], console = []\<rparr>"]
    by (simp add: i)
qed

text \<open>
  Claim C6 as stated fails: a refresh whose status request answers 5 and whose documents
  request is rejected, run while an upload has set \<^verbatim>\<open>isIndexing\<close>, swallows the error but
  ends with \<^verbatim>\<open>isIndexing\<close> still true, and it leaves the store changed in part:
  \<^verbatim>\<open>indexedCount\<close> has gone from 0 to 5 beside a document list that is still empty.
\<close>

theorem C6_counterexample:
  "rejected (Rejected :: document list settled)
   \<and> snd (fetchStatusAndDocuments (Resolved (Some \<lparr>indexed_count = 5\<rparr>)) Rejected) = None
   \<and> store (perform_all reducer_remote
        (fst (fetchStatusAndDocuments (Resolved (Some \<lparr>indexed_count = 5\<rparr>)) Rejected))
        \<lparr>store = setIsIndexing True initialState_remote, input = [], console = []\<rparr>)
       = \<lparr>messages = [], isProcessing = False, documents = [], isIndexing = True,
          indexedCount = 5\<rparr>
   \<and> indexedCount (setIsIndexing True initialState_remote) = 0"
  by (simp add: fetch_effect rejected_def initialState_remote_def setIsIndexing_def
      fetchStatusAndDocuments_swallows)

text \<open>
  Claim C8. On the mock page \<^verbatim>\<open>handleIndexDocuments\<close> first sets \<^verbatim>\<open>isIndexing\<close> to true and
  changes nothing else, then sets a timer of 2000 ms; the timer's callback performs two
  events, in this order: the first maps every document's status to indexed (ids, names
  and the order of the list are kept), the second sets \<^verbatim>\<open>isIndexing\<close> to false. The
  messages, \<^verbatim>\<open>isProcessing\<close> and the chat input are not touched by either part.
\<close>

theorem C8_mock_indexing_steps:
  fixes w w2 :: "(string, source) chat_state ui"
  shows
  "snd handleIndexDocuments = 2000
   \<and> perform_all reducer (fst handleIndexDocuments) w
       = w\<lparr>store := (store w)\<lparr>isIndexing := True\<rparr>\<rparr>
   \<and> length handleIndexDocuments_timeout = 2
   \<and> perform_all reducer (take 1 handleIndexDocuments_timeout) w2
       = w2\<lparr>store := (store w2)\<lparr>documents :=
               map (\<lambda>doc. doc\<lparr>status := Indexed\<rparr>) (documents (store w2))\<rparr>\<rparr>
   \<and> perform_all reducer handleIndexDocuments_timeout w2
       = w2\<lparr>store := (store w2)\<lparr>documents :=
               map (\<lambda>doc. doc\<lparr>status := Indexed\<rparr>) (documents (store w2)),
               isIndexing := False\<rparr>\<rparr>
   \<and> list_all (\<lambda>d. status d = Indexed)
        (documents (store (perform_all reducer handleIndexDocuments_timeout w2)))
   \<and> map doc_id (documents (store (perform_all reducer handleIndexDocuments_timeout w2)))
       = map doc_id (documents (store w2))
   \<and> map name (documents (store (perform_all reducer handleIndexDocuments_timeout w2)))
       = map name (documents (store w2))
   \<and> messages (store (perform_all reducer (fst handleIndexDocuments) w)) = messages (store w)
   \<and> isProcessing (store (perform_all reducer (fst handleIndexDocuments) w))
       = isProcessing (store w)
   \<and> documents (store (perform_all reducer (fst handleIndexDocuments) w)) = documents (store w)
   \<and> messages (store (perform_all reducer handleIndexDocuments_timeout w2))
       = messages (store w2)
   \<and> isProcessing (store (perform_all reducer handleIndexDocuments_timeout w2))
       = isProcessing (store w2)
   \<and> input (perform_all reducer handleIndexDocuments_timeout w2) = input w2"
  by (simp add: handleIndexDocuments_def handleIndexDocuments_timeout_def perform_all_Cons
      perform_all_Nil setIsIndexing_def simulateIndexing_def list_all_iff comp_def)

end
